theory Spec2Isabelle
  imports Complex_Main
begin

unbundle bit_operations_syntax

section \<open>The ROSRobot driver of armer as HOL functions\<close>

text \<open>
  The development embeds \<^verbatim>\<open>armer/robots/ROSRobot.py\<close>. Conventions:
  \<^item> numbers are real numbers: rounding of float64 is not modelled, so a statement
    holds of the arithmetic the code writes, not of its rounding;
  \<^item> a numpy vector is a \<open>real list\<close>; elementwise operations combine two vectors of
    the same length (the joint count), where numpy would broadcast or raise for other
    shapes;
  \<^item> the attributes \<open>q\<close> and \<open>qd\<close> belong to the kinematic model of the toolbox,
    whose setters keep an array; \<open>j_v\<close> is a plain attribute of the driver and holds
    either an array or the Python list \<open>[0] * n\<close>;
  \<^item> forward kinematics, Jacobians, matrix inverses, trajectory interpolation and the
    assembly of the state message come from libraries outside the repository and are
    parameters (\<open>provider\<close>);
  \<^item> the motion lock is not modelled: a callback is described from the state in which
    it runs, and what other threads do between two iterations of a blocking loop is a
    list of events delivered before the iteration.
\<close>

subsection \<open>Vectors\<close>

type_synonym vec = "real list"
type_synonym matrix = "real list list"

definition vscale :: "real \<Rightarrow> vec \<Rightarrow> vec" where
  "vscale c v = map (\<lambda>x. x * c) v"

definition vsub :: "vec \<Rightarrow> vec \<Rightarrow> vec" where
  "vsub a b = map2 (\<lambda>x y. x - y) a b"

definition vadd :: "vec \<Rightarrow> vec \<Rightarrow> vec" where
  "vadd a b = map2 (\<lambda>x y. x + y) a b"

definition matvec :: "matrix \<Rightarrow> vec \<Rightarrow> vec" where
  "matvec m v = map (\<lambda>row. sum_list (map2 (\<lambda>x y. x * y) row v)) m"

text \<open>\<^verbatim>\<open>np.linalg.norm\<close> of a vector.\<close>

definition linalg_norm :: "vec \<Rightarrow> real" where
  "linalg_norm v = sqrt (sum_list (map (\<lambda>x. x * x) v))"

text \<open>\<^verbatim>\<open>any(v)\<close> and \<^verbatim>\<open>np.any(v)\<close>: some component is not zero.\<close>

definition np_any :: "vec \<Rightarrow> bool" where
  "np_any v = list_ex (\<lambda>x. x \<noteq> 0) v"

text \<open>\<^verbatim>\<open>np.sum(np.absolute(v))\<close>.\<close>

definition sum_abs :: "vec \<Rightarrow> real" where
  "sum_abs v = sum_list (map abs v)"


text \<open>
  The value of \<open>j_v\<close>: a numpy array, or the list of integer zeros that
  \<^verbatim>\<open>[0] * self.n\<close> builds (the only list the driver ever stores there).
\<close>

datatype pyvec = NdArray vec | ZeroList nat

fun elems :: "pyvec \<Rightarrow> vec" where
  "elems (NdArray v) = v"
| "elems (ZeroList k) = replicate k 0"

text \<open>
  \<^verbatim>\<open>v *= c\<close> for a number \<open>c\<close> scales an array in place; \<^verbatim>\<open>v *= 0\<close> on a Python
  list repeats the list zero times and leaves the empty list.
\<close>

fun imul_zero :: "pyvec \<Rightarrow> pyvec" where
  "imul_zero (NdArray v) = NdArray (vscale 0 v)"
| "imul_zero (ZeroList k) = ZeroList 0"

subsection \<open>Messages\<close>

record wrench =
  force_x :: real
  force_y :: real
  force_z :: real
  torque_x :: real
  torque_y :: real
  torque_z :: real

record pose =
  rotation :: matrix
  translation :: vec

record manipulator_state =
  ee_pose :: pose
  ee_velocity :: vec
  joint_poses :: vec
  joint_velocities :: vec
  joint_torques :: vec
  ee_wrench :: wrench

text \<open>
  \<^verbatim>\<open>armer_msgs/Guards\<close>: the two guard constants are attributes of the message
  class, read through the message (\<^verbatim>\<open>guards.GUARD_DURATION\<close>).
\<close>

record guards =
  GUARD_DURATION :: int
  GUARD_EFFORT :: int
  enabled :: int
  duration :: real
  effort :: wrench

record twist_stamped =
  frame_id :: string
  linear_x :: real
  linear_y :: real
  linear_z :: real
  angular_x :: real
  angular_y :: real
  angular_z :: real

record guarded_velocity_goal =
  goal_twist_stamped :: twist_stamped
  goal_guards :: guards

record move_to_named_pose_goal =
  pose_name :: string
  speed :: real

text \<open>
  The request of the add service carries a name and the overwrite flag. The remove
  service reads \<^verbatim>\<open>req.overwrite\<close> too; whether \<^verbatim>\<open>RemoveNamedPoseRequest\<close>
  declares that field is decided by \<^verbatim>\<open>armer_msgs\<close>, outside the repository, so the
  field is optional here (\<open>None\<close>: the attribute does not exist).
\<close>

record add_named_pose_request =
  add_pose_name :: string
  add_overwrite :: bool

record remove_named_pose_request =
  remove_pose_name :: string
  remove_overwrite :: "bool option"

datatype server = VelocityServer | NamedPoseServer

datatype action_report =
    SetSucceededTriggered server bool
  | SetSucceeded server bool
  | SetAborted server bool string

datatype error = KeyError string | AttributeError string | ZeroDivisionError | ValueError

subsection \<open>Configuration documents\<close>

text \<open>
  A YAML document maps a top-level category to a mapping from pose name to joint
  vector; \<open>files\<close> maps a path to the document stored there, \<open>None\<close> when the path
  cannot be opened (\<^verbatim>\<open>IOError\<close>). An empty document and a missing
  \<^verbatim>\<open>named_poses\<close> key both contribute nothing.
\<close>

type_synonym poses = "string \<rightharpoonup> vec"
type_synonym document = "string \<rightharpoonup> poses"

subsection \<open>The runtime state\<close>

record robot =
  robot_n :: nat
  frequency :: real
  base_link_name :: string
  robot_q :: vec
  robot_qd :: vec
  moving :: bool
  preempted :: bool
  state :: manipulator_state
  e_v_frame :: "string option"
  e_v :: vec
  j_v :: pyvec
  e_p :: pose
  last_update :: real
  last_tick :: real
  readonly :: bool
  config_path :: string
  custom_configs :: "string list"
  named_poses :: poses
  files :: "string \<rightharpoonup> document"
  reports :: "action_report list"

datatype 'a outcome = Returned 'a robot | Raised error robot

text \<open>The libraries the driver calls.\<close>

record provider =
  fkine :: "vec \<Rightarrow> pose"
  jacob0 :: "vec \<Rightarrow> matrix"
  pinv :: "matrix \<Rightarrow> matrix"
  mul_inv :: "pose \<Rightarrow> pose \<Rightarrow> pose"
  jtraj :: "vec \<Rightarrow> vec \<Rightarrow> real \<Rightarrow> matrix"
  get_state :: "robot \<Rightarrow> manipulator_state"

subsection \<open>Named pose store\<close>

text \<open>
  One pass of the body shared by both loading sites of \<^verbatim>\<open>__load_config\<close>: read
  the document, and if it has the key \<^verbatim>\<open>named_poses\<close> update the map with it.
\<close>

definition load_source :: "(string \<rightharpoonup> document) \<Rightarrow> string \<Rightarrow> poses \<Rightarrow> poses" where
  "load_source fs path acc =
     (case fs path of
        None \<Rightarrow> acc
      | Some config \<Rightarrow>
          (case config ''named_poses'' of
             None \<Rightarrow> acc
           | Some p \<Rightarrow> acc ++ p))"

text \<open>\<^verbatim>\<open>__load_config\<close>: the custom configurations in list order, then the primary file.\<close>

definition load_config :: "robot \<Rightarrow> robot" where
  "load_config r =
     r\<lparr>named_poses :=
         load_source (files r) (config_path r)
           (fold (load_source (files r)) (custom_configs r) Map.empty)\<rparr>"

text \<open>\<^verbatim>\<open>__write_config\<close>: merge one key into the primary document and write it back.\<close>

definition write_config :: "string \<Rightarrow> poses \<Rightarrow> robot \<Rightarrow> robot" where
  "write_config key val r =
     (let config = (case files r (config_path r) of None \<Rightarrow> Map.empty | Some current \<Rightarrow> current)
      in r\<lparr>files := (files r)(config_path r \<mapsto> config(key \<mapsto> val))\<rparr>)"

definition get_named_poses_cb :: "robot \<Rightarrow> string set" where
  "get_named_poses_cb r = dom (named_poses r)"

definition add_named_pose_cb :: "add_named_pose_request \<Rightarrow> robot \<Rightarrow> bool \<times> robot" where
  "add_named_pose_cb req r =
     (if add_pose_name req \<in> dom (named_poses r) \<and> \<not> add_overwrite req then (False, r)
      else
        (let r1 = r\<lparr>named_poses := (named_poses r)(add_pose_name req \<mapsto> robot_q r)\<rparr>
         in (True, write_config ''named_poses'' (named_poses r1) r1)))"

definition remove_named_pose_cb :: "remove_named_pose_request \<Rightarrow> robot \<Rightarrow> bool outcome" where
  "remove_named_pose_cb req r =
     (if remove_pose_name req \<in> dom (named_poses r) then
        (let r1 = r\<lparr>named_poses := (named_poses r)(remove_pose_name req := None)\<rparr>
         in Returned True (write_config ''named_poses'' (named_poses r1) r1))
      else
        (case remove_overwrite req of
           None \<Rightarrow> Raised (AttributeError ''overwrite'') r
         | Some False \<Rightarrow> Returned False r
         | Some True \<Rightarrow> Raised (KeyError (remove_pose_name req)) r))"

definition add_named_pose_config_cb :: "string \<Rightarrow> robot \<Rightarrow> robot" where
  "add_named_pose_config_cb path r = load_config (r\<lparr>custom_configs := custom_configs r @ [path]\<rparr>)"

definition remove_named_pose_config_cb :: "string \<Rightarrow> robot \<Rightarrow> robot" where
  "remove_named_pose_config_cb path r =
     (if path \<in> set (custom_configs r)
      then load_config (r\<lparr>custom_configs := remove1 path (custom_configs r)\<rparr>)
      else r)"

definition get_named_pose_configs_cb :: "robot \<Rightarrow> string list" where
  "get_named_pose_configs_cb r = custom_configs r"

subsection \<open>Preemption\<close>

definition preempt :: "robot \<Rightarrow> robot" where
  "preempt r =
     r\<lparr>preempted := True,
       e_v := vscale 0 (e_v r),
       j_v := imul_zero (j_v r),
       robot_qd := vscale 0 (robot_qd r)\<rparr>"

subsection \<open>Cartesian velocity targets\<close>

text \<open>\<^verbatim>\<open>__vel_move\<close>, with the clock reading \<open>now\<close> of \<^verbatim>\<open>timeit.default_timer()\<close>.\<close>

definition vel_move :: "provider \<Rightarrow> twist_stamped \<Rightarrow> real \<Rightarrow> robot \<Rightarrow> robot" where
  "vel_move K ts now r =
     (let r1 = r\<lparr>e_v_frame :=
                  (if frame_id ts \<noteq> [] \<and> frame_id ts \<noteq> base_link_name r
                   then Some (frame_id ts) else None)\<rparr>;
          target = [linear_x ts, linear_y ts, linear_z ts, angular_x ts, angular_y ts, angular_z ts];
          r2 = (if np_any (vsub target (e_v r1)) then r1\<lparr>e_p := fkine K (robot_q r1)\<rparr> else r1)
      in r2\<lparr>e_v := target, last_update := now\<rparr>)"

subsection \<open>Guards\<close>

definition wrench_list :: "wrench \<Rightarrow> vec" where
  "wrench_list w = [force_x w, force_y w, force_z w, torque_x w, torque_y w, torque_z w]"

text \<open>\<^verbatim>\<open>test_guards\<close>; \<open>now\<close> is the clock reading inside the duration test.\<close>

definition test_guards :: "guards \<Rightarrow> real \<Rightarrow> real \<Rightarrow> robot \<Rightarrow> int" where
  "test_guards g start_time now r =
     (let triggered = 0;
          triggered =
            (if (enabled g AND GUARD_DURATION g) = GUARD_DURATION g
             then triggered OR (if now - start_time > duration g then GUARD_DURATION g else 0)
             else triggered);
          triggered =
            (if (enabled g AND GUARD_EFFORT g) = GUARD_EFFORT g
             then
               (let eActual = map abs (wrench_list (ee_wrench (state r)));
                    eThreshold = wrench_list (effort g)
                in triggered OR
                     (if list_ex (\<lambda>(a, t). a > t) (zip eActual eThreshold)
                      then GUARD_EFFORT g else 0))
             else triggered)
      in triggered)"

subsection \<open>The periodic tick\<close>

text \<open>
  The block of \<^verbatim>\<open>step\<close> under \<^verbatim>\<open>if any(self.e_v)\<close>: decay of a stale cartesian
  target, integration of the expected pose, and conversion to joint velocities.
\<close>

definition cartesian_stage :: "provider \<Rightarrow> real \<Rightarrow> real \<Rightarrow> robot \<Rightarrow> robot" where
  "cartesian_stage K current_time dt r =
     (if np_any (e_v r) then
        (let r1 = (if current_time - last_update r > 0.1
                   then r\<lparr>e_v := vscale (if sum_abs (e_v r) \<ge> 0.0001 then 0.9 else 0) (e_v r)\<rparr>
                   else r);
             Kp = 1;
             wTe = fkine K (robot_q r1);
             error = mul_inv K (e_p r1) wTe;
             trans = vadd (translation (e_p r1)) (vscale dt (take 3 (e_v r1)));
             r2 = r1\<lparr>e_p := \<lparr>rotation = rotation (e_p r1), translation = trans\<rparr>\<rparr>;
             v_t = vadd (take 3 (e_v r2)) (vscale Kp (translation error));
             v_r = drop 3 (e_v r2)
         in r2\<lparr>j_v := NdArray (matvec (pinv K (jacob0 K (robot_q r2))) (v_t @ v_r))\<rparr>)
      else r)"

text \<open>
  The block under \<^verbatim>\<open>if any(self.j_v)\<close>; \<^verbatim>\<open>any\<close> of a list of zeros is false, so
  only an array is ever scaled.
\<close>

definition joint_stage :: "real \<Rightarrow> robot \<Rightarrow> robot" where
  "joint_stage current_time r =
     (case j_v r of
        ZeroList k \<Rightarrow> r
      | NdArray v \<Rightarrow>
          (if np_any v then
             (if current_time - last_update r > 0.1
              then r\<lparr>j_v := NdArray (vscale (if sum_abs v \<ge> 0.0001 then 0.9 else 0) v)\<rparr>
              else r)
           else r))"

text \<open>
  \<^verbatim>\<open>step\<close>; \<open>current_time\<close> is its clock reading. Publishing the state message and
  setting the tick event have no effect on the state and are left out.
\<close>

definition step :: "provider \<Rightarrow> real \<Rightarrow> real \<Rightarrow> robot \<Rightarrow> robot" where
  "step K current_time dt r =
     (if readonly r then r
      else
        (let r0 = r\<lparr>state := get_state K r\<rparr>;
             r1 = cartesian_stage K current_time dt r0;
             r2 = joint_stage current_time r1
         in r2\<lparr>robot_qd := elems (j_v r2), last_tick := current_time\<rparr>))"

subsection \<open>What other threads do during a blocking loop\<close>

text \<open>
  While a callback loops, the stop service or an action client calls \<open>preempt\<close>, the
  joint-state subscriber stores new joint positions, and the timer calls \<open>step\<close>. A
  blocking loop receives, for each of its iterations, the clock reading of the iteration
  and the events that happened since the previous one.
\<close>

datatype event = Preempt | Joints vec | Tick real real

fun deliver :: "provider \<Rightarrow> event \<Rightarrow> robot \<Rightarrow> robot" where
  "deliver K Preempt r = preempt r"
| "deliver K (Joints v) r = r\<lparr>robot_q := v\<rparr>"
| "deliver K (Tick current_time dt) r = step K current_time dt r"

definition environment :: "provider \<Rightarrow> event list \<Rightarrow> robot \<Rightarrow> robot" where
  "environment K evs r = fold (deliver K) evs r"

type_synonym trace = "(real \<times> event list) list"

subsection \<open>Trajectory execution\<close>

text \<open>\<^verbatim>\<open>int(x)\<close> of a float truncates toward zero.\<close>

definition py_int :: "real \<Rightarrow> int" where
  "py_int x = (if 0 \<le> x then \<lfloor>x\<rfloor> else \<lceil>x\<rceil>)"

text \<open>\<^verbatim>\<open>np.max\<close> raises on an empty array.\<close>

fun np_max :: "vec \<Rightarrow> real option" where
  "np_max [] = None"
| "np_max (x # xs) = Some (fold max xs x)"

text \<open>\<^verbatim>\<open>np.all(np.fabs(qfunc(1) - self.q) < 0.02)\<close>.\<close>

definition close_to_goal :: "vec \<Rightarrow> vec \<Rightarrow> bool" where
  "close_to_goal end_point q = list_all (\<lambda>d. \<bar>d\<bar> < 0.02) (vsub end_point q)"

text \<open>
  The factor computed under \<^verbatim>\<open>if linear_vel > max_speed\<close>, and \<open>1\<close> otherwise:
  \<^verbatim>\<open>normalised_vel = (twist / linear_vel) * max_speed\<close>,
  \<^verbatim>\<open>time_scaling = np.linalg.norm(normalised_vel) / linear_vel\<close>.
  The branch divides by \<open>linear_vel\<close>, which is zero there only for a negative
  \<open>max_speed\<close>; numpy then yields NaN, which the real numbers do not have, and the
  value of the model at such an input says nothing about the code.
\<close>

definition time_scaling_of :: "vec \<Rightarrow> real \<Rightarrow> real" where
  "time_scaling_of twist max_speed =
     (let linear_vel = linalg_norm (take 3 twist)
      in if linear_vel > max_speed
         then (let normalised_vel = vscale max_speed (vscale (1 / linear_vel) twist)
               in linalg_norm normalised_vel / linear_vel)
         else 1)"

text \<open>
  The joint velocity of one step of the minimum-jerk profile, with the gain
  \<^verbatim>\<open>kP = 1500\<close> applied; \<open>k\<close> is the step counter \<^verbatim>\<open>time\<close> of the source.
\<close>

definition profile_velocity :: "real \<Rightarrow> int \<Rightarrow> int \<Rightarrow> vec \<Rightarrow> vec \<Rightarrow> vec" where
  "profile_velocity freq time_freq k end_point q =
     (let u = real_of_int k / real_of_int time_freq;
          jV = vscale (30 * u ^ 2 - 60 * u ^ 3 + 30 * u ^ 4)
                 (vscale (freq * (1 / real_of_int time_freq)) (vsub end_point q));
          kP = 1500
      in vscale kP jV)"

text \<open>
  The \<^verbatim>\<open>while\<close> loop of \<^verbatim>\<open>__traj_move\<close>. The loop runs out of trace (\<open>None\<close>) when
  it is still running after the last recorded iteration. On exit it hands back the loop
  variable \<open>t\<close> and the state. One reading of \<open>self.q\<close> and of the preemption flag
  stands for all the readings of an iteration; the local \<^verbatim>\<open>frequency\<close> is read from
  the state, which no event changes; \<^verbatim>\<open>1.0/time_freq\<close> raises when \<open>time_freq\<close> is 0.
\<close>

fun traj_loop ::
  "provider \<Rightarrow> real \<Rightarrow> vec \<Rightarrow> real \<Rightarrow> real \<Rightarrow> int \<Rightarrow> trace \<Rightarrow> real \<Rightarrow> int \<Rightarrow> robot
     \<Rightarrow> real outcome option" where
  "traj_loop K max_speed end_point total_time_cal delta time_freq [] t k r = None"
| "traj_loop K max_speed end_point total_time_cal delta time_freq ((now, evs) # rest) t k r =
     (let r1 = environment K evs r in
      if \<not> (t + delta < total_time_cal \<and> \<not> preempted r1) then Some (Returned t r1)
      else if close_to_goal end_point (robot_q r1) then Some (Returned t r1)
      else if time_freq = 0 then Some (Raised ZeroDivisionError r1)
      else
        (let jV = profile_velocity (frequency r1) time_freq k end_point (robot_q r1);
             twist = matvec (jacob0 K (robot_q r1)) jV;
             time_scaling = time_scaling_of twist max_speed;
             r2 = r1\<lparr>j_v := NdArray (vscale time_scaling jV), last_update := now\<rparr>
         in traj_loop K max_speed end_point total_time_cal delta time_freq rest
              (t + delta * time_scaling) (k + 1) r2))"

text \<open>
  \<^verbatim>\<open>__traj_move\<close>. \<open>traj\<close> is the array \<^verbatim>\<open>traj.q\<close>, one row per way point;
  \<^verbatim>\<open>qfunc(1)\<close> is its last row, and \<^verbatim>\<open>interp1d\<close> refuses fewer than two rows.
\<close>

definition traj_move :: "provider \<Rightarrow> matrix \<Rightarrow> real \<Rightarrow> trace \<Rightarrow> robot \<Rightarrow> bool outcome option" where
  "traj_move K traj max_speed tr r =
     (let r0 = r\<lparr>moving := True\<rparr> in
      if frequency r0 = 0 then Some (Raised ZeroDivisionError r0)
      else if length traj < 2 then Some (Raised ValueError r0)
      else
        (let delta = 1 / frequency r0;
             end_point = last traj;
             beg_point = robot_q r0
         in case np_max (map (\<lambda>d. \<bar>d / 0.025\<bar>) (vsub end_point beg_point)) of
              None \<Rightarrow> Some (Raised ValueError r0)
            | Some total_time_cal \<Rightarrow>
                (let time_freq = py_int (total_time_cal * frequency r0)
                 in case traj_loop K max_speed end_point total_time_cal delta time_freq tr 0 1 r0 of
                      None \<Rightarrow> None
                    | Some (Raised e r1) \<Rightarrow> Some (Raised e r1)
                    | Some (Returned t r1) \<Rightarrow>
                        Some (Returned (\<not> preempted r1)
                                (r1\<lparr>j_v := ZeroList (robot_n r1),
                                    moving := False,
                                    preempted := False\<rparr>)))))"

subsection \<open>Action callbacks\<close>

text \<open>
  \<^verbatim>\<open>named_pose_cb\<close>. After \<^verbatim>\<open>set_aborted\<close> for an unknown name the source goes on
  to \<^verbatim>\<open>self.named_poses[goal.pose_name]\<close>.
\<close>

definition named_pose_cb ::
  "provider \<Rightarrow> move_to_named_pose_goal \<Rightarrow> trace \<Rightarrow> robot \<Rightarrow> unit outcome option" where
  "named_pose_cb K goal tr r =
     (let r0 = (if moving r then preempt r else r);
          r1 = (if pose_name goal \<notin> dom (named_poses r0)
                then r0\<lparr>reports := reports r0 @
                          [SetAborted NamedPoseServer False ''Unknown named pose'']\<rparr>
                else r0)
      in case named_poses r1 (pose_name goal) of
           None \<Rightarrow> Some (Raised (KeyError (pose_name goal)) r1)
         | Some target \<Rightarrow>
             (let traj = jtraj K (robot_q r1) target (frequency r1)
              in case traj_move K traj (if speed goal \<noteq> 0 then speed goal else 0.2) tr r1 of
                   None \<Rightarrow> None
                 | Some (Raised e r2) \<Rightarrow> Some (Raised e r2)
                 | Some (Returned ok r2) \<Rightarrow>
                     Some (Returned ()
                       (r2\<lparr>reports := reports r2 @
                             [if ok then SetSucceeded NamedPoseServer True
                              else SetAborted NamedPoseServer False []]\<rparr>))))"

text \<open>The \<^verbatim>\<open>while not self.preempted\<close> loop of \<^verbatim>\<open>guarded_velocity_cb\<close>.\<close>

fun guarded_loop ::
  "provider \<Rightarrow> guarded_velocity_goal \<Rightarrow> real \<Rightarrow> trace \<Rightarrow> int \<Rightarrow> robot \<Rightarrow> (int \<times> robot) option" where
  "guarded_loop K msg start_time [] triggered r = None"
| "guarded_loop K msg start_time ((now, evs) # rest) triggered r =
     (let r1 = environment K evs r in
      if preempted r1 then Some (triggered, r1)
      else
        (let triggered1 = test_guards (goal_guards msg) start_time now r1
         in if triggered1 \<noteq> 0 then Some (triggered1, r1)
            else guarded_loop K msg start_time rest triggered1
                   (vel_move K (goal_twist_stamped msg) now r1)))"

text \<open>
  \<^verbatim>\<open>guarded_velocity_cb\<close>; \<open>start_time\<close> is the clock reading on entry. The result
  message is built with the literal \<^verbatim>\<open>triggered=True\<close>.
\<close>

definition guarded_velocity_cb ::
  "provider \<Rightarrow> guarded_velocity_goal \<Rightarrow> real \<Rightarrow> trace \<Rightarrow> robot \<Rightarrow> robot option" where
  "guarded_velocity_cb K msg start_time tr r =
     (let r0 = (if moving r then preempt r else r)
      in case guarded_loop K msg start_time tr 0 r0 of
           None \<Rightarrow> None
         | Some (triggered, r1) \<Rightarrow>
             Some (r1\<lparr>reports := reports r1 @ [SetSucceededTriggered VelocityServer True]\<rparr>))"

subsection \<open>Construction\<close>

definition zero_wrench :: wrench where
  "zero_wrench = \<lparr>force_x = 0, force_y = 0, force_z = 0, torque_x = 0, torque_y = 0, torque_z = 0\<rparr>"

definition empty_state :: manipulator_state where
  "empty_state =
     \<lparr>ee_pose = \<lparr>rotation = [], translation = []\<rparr>, ee_velocity = [], joint_poses = [],
      joint_velocities = [], joint_torques = [], ee_wrench = zero_wrench\<rparr>"

text \<open>
  \<^verbatim>\<open>__init__\<close> of a driver that is not read-only, as far as the runtime state goes:
  \<open>q0\<close> is the configuration the kinematic model starts in, \<open>fs\<close> the files on disk.
\<close>

definition init :: "provider \<Rightarrow> real \<Rightarrow> string \<Rightarrow> vec \<Rightarrow> string \<Rightarrow> (string \<rightharpoonup> document) \<Rightarrow> robot" where
  "init K freq base q0 path fs =
     load_config
       \<lparr>robot_n = length q0, frequency = freq, base_link_name = base,
        robot_q = q0, robot_qd = replicate (length q0) 0,
        moving = False, preempted = False, state = empty_state,
        e_v_frame = None, e_v = replicate 6 0, j_v = NdArray (replicate (length q0) 0),
        e_p = fkine K q0, last_update = 0, last_tick = 0, readonly = False,
        config_path = path, custom_configs = [], named_poses = Map.empty,
        files = fs, reports = []\<rparr>"

subsection \<open>Reference readings used in the statements\<close>

text \<open>What one source contributes to the store when it is read on its own.\<close>

definition source_poses :: "(string \<rightharpoonup> document) \<Rightarrow> string \<Rightarrow> poses" where
  "source_poses fs path = load_source fs path Map.empty"

text \<open>
  The entry for a name in the first source of a list that has one; applied to the
  reversed list of custom configurations this is the one added last.
\<close>

fun latest_source :: "(string \<rightharpoonup> document) \<Rightarrow> string list \<Rightarrow> string \<Rightarrow> vec option" where
  "latest_source fs [] k = None"
| "latest_source fs (c # cs) k =
     (case source_poses fs c k of Some v \<Rightarrow> Some v | None \<Rightarrow> latest_source fs cs k)"

text \<open>
  The staleness rule in the words of the specification: a stale target is multiplied by
  0.9 when the sum of its absolute components is at least 1e-4 and is the zero vector
  otherwise; a fresh target is unchanged.
\<close>

definition staleness_decay :: "bool \<Rightarrow> vec \<Rightarrow> vec" where
  "staleness_decay stale v =
     (if stale
      then (if sum_abs v \<ge> 0.0001 then map (\<lambda>x. 0.9 * x) v else replicate (length v) 0)
      else v)"

subsection \<open>Example inputs\<close>

text \<open>A stand-in for the libraries: a fixed pose and a Jacobian of zeros.\<close>

definition test_provider :: provider where
  "test_provider =
     \<lparr>fkine = (\<lambda>q. \<lparr>rotation = [[1, 0, 0], [0, 1, 0], [0, 0, 1]], translation = [0, 0, 0]\<rparr>),
      jacob0 = (\<lambda>q. replicate 6 (replicate (length q) 0)),
      pinv = (\<lambda>m. map (\<lambda>c. replicate 6 0) (case m of [] \<Rightarrow> [] | row # rows \<Rightarrow> row)),
      mul_inv = (\<lambda>a b. a),
      jtraj = (\<lambda>q0 qf f. [q0, qf]),
      get_state = state\<rparr>"

definition home_files :: "string \<rightharpoonup> document" where
  "home_files =
     [''primary.yaml'' \<mapsto> [''named_poses'' \<mapsto> [''home'' \<mapsto> [0, 0, 0, 0, 0, 0]]],
      ''aux.yaml'' \<mapsto> [''named_poses'' \<mapsto> [''home'' \<mapsto> [0, 0, 0, 0, 0, 1]]]]"

definition home_robot :: robot where
  "home_robot =
     init test_provider 500 ''base_link'' [0, 0, 0, 0, 0, 0] ''primary.yaml'' home_files"


definition no_guards :: guards where
  "no_guards =
     \<lparr>GUARD_DURATION = 1, GUARD_EFFORT = 2, enabled = 0, duration = 0, effort = zero_wrench\<rparr>"

definition forward_twist :: twist_stamped where
  "forward_twist =
     \<lparr>frame_id = [], linear_x = 1 / 10, linear_y = 0, linear_z = 0,
      angular_x = 0, angular_y = 0, angular_z = 0\<rparr>"

definition stale_robot :: robot where
  "stale_robot = home_robot\<lparr>e_v := [1, 0, 0, 0, 0, 0], last_update := 0\<rparr>"

definition both_guards :: guards where
  "both_guards =
     \<lparr>GUARD_DURATION = 1, GUARD_EFFORT = 2, enabled = 3, duration = 5, effort = zero_wrench\<rparr>"


definition first_add :: "bool \<times> robot" where
  "first_add = add_named_pose_cb \<lparr>add_pose_name = ''ready'', add_overwrite = False\<rparr> home_robot"

definition second_add :: "bool \<times> robot" where
  "second_add =
     add_named_pose_cb \<lparr>add_pose_name = ''park'', add_overwrite = False\<rparr> (snd first_add)"



section \<open>Properties\<close>

subsection \<open>Auxiliary facts about vectors\<close>


lemma vscale_0_replicate: "vscale 0 v = replicate (length v) 0"
  by (induction v) (simp_all add: vscale_def)





lemma vscale_nine_tenths: "vscale (9 / 10) v = map ((*) (9 / 10)) v"
  by (simp add: vscale_def mult.commute)

lemma not_any_zero: "\<not> np_any v \<Longrightarrow> v = replicate (length v) 0"
  by (induction v) (simp_all add: np_any_def)

lemma close_to_goal_self: "close_to_goal g g"
  by (induction g) (simp_all add: close_to_goal_def vsub_def)

subsection \<open>The example states, evaluated\<close>

lemma home_robot_fields:
  "named_poses home_robot = [''home'' \<mapsto> [0, 0, 0, 0, 0, 0]]"
  "robot_q home_robot = [0, 0, 0, 0, 0, 0]"
  "\<not> moving home_robot"
  "\<not> preempted home_robot"
  "\<not> readonly home_robot"
  "reports home_robot = []"
  "config_path home_robot = ''primary.yaml''"
  "custom_configs home_robot = []"
  "files home_robot = home_files"
  "state home_robot = empty_state"
  by (auto simp: home_robot_def init_def load_config_def load_source_def home_files_def)

subsection \<open>Named pose store: reload order\<close>

lemma load_source_add: "load_source fs path acc = acc ++ source_poses fs path"
  by (simp add: load_source_def source_poses_def split: option.splits)

lemma latest_source_snoc:
  "latest_source fs (cs @ [c]) k =
     (case latest_source fs cs k of Some v \<Rightarrow> Some v | None \<Rightarrow> source_poses fs c k)"
  by (induction cs) (simp_all split: option.splits)

lemma fold_load_source:
  "fold (load_source fs) cs acc k =
     (case latest_source fs (rev cs) k of Some v \<Rightarrow> Some v | None \<Rightarrow> acc k)"
proof (induction cs arbitrary: acc)
  case Nil
  then show ?case by simp
next
  case (Cons c cs)
  have "fold (load_source fs) (c # cs) acc k = fold (load_source fs) cs (load_source fs c acc) k"
    by simp
  also have "\<dots> = (case latest_source fs (rev cs) k of
                      Some v \<Rightarrow> Some v | None \<Rightarrow> load_source fs c acc k)"
    by (rule Cons.IH)
  also have "\<dots> = (case latest_source fs (rev (c # cs)) k of Some v \<Rightarrow> Some v | None \<Rightarrow> acc k)"
    by (simp add: latest_source_snoc load_source_add map_add_def split: option.splits)
  finally show ?case .
qed

lemma load_config_lookup:
  "named_poses (load_config r) k =
     (case source_poses (files r) (config_path r) k of
        Some v \<Rightarrow> Some v
      | None \<Rightarrow> latest_source (files r) (rev (custom_configs r)) k)"
  by (simp add: load_config_def load_source_add fold_load_source map_add_def split: option.splits)

lemma home_after_aux:
  "named_poses (add_named_pose_config_cb ''aux.yaml'' home_robot) ''home'' = Some [0, 0, 0, 0, 0, 0]"
  by (simp add: add_named_pose_config_cb_def load_config_lookup home_robot_fields
        source_poses_def load_source_def home_files_def)

text \<open>
  C1, as stated: with the primary file holding \<open>home \<mapsto> [0,0,0,0,0,0]\<close> and the auxiliary
  source holding \<open>home \<mapsto> [0,0,0,0,0,1]\<close> added afterwards, looking up \<open>home\<close> gives the
  auxiliary entry. It gives the primary entry instead.
\<close>

theorem auxiliary_source_does_not_override_primary:
  "named_poses home_robot ''home'' = Some [0, 0, 0, 0, 0, 0]
   \<and> source_poses (files home_robot) ''aux.yaml'' ''home'' = Some [0, 0, 0, 0, 0, 1]
   \<and> custom_configs (add_named_pose_config_cb ''aux.yaml'' home_robot) = [''aux.yaml'']
   \<and> named_poses (add_named_pose_config_cb ''aux.yaml'' home_robot) ''home''
       \<noteq> Some [0, 0, 0, 0, 0, 1]"
  by (simp add: home_after_aux home_robot_fields source_poses_def load_source_def home_files_def
        add_named_pose_config_cb_def load_config_def)

text \<open>
  C1, amended: a full reload reads the auxiliary sources in list order and the primary
  persisted source last. An entry of the primary source therefore wins every collision;
  a name the primary source lacks takes the entry of the auxiliary source added last among
  those that have it. In the example, \<open>home\<close> gives \<open>[0,0,0,0,0,0]\<close>.
\<close>

theorem reload_primary_overrides_auxiliary:
  "named_poses (load_config r) k =
     (case source_poses (files r) (config_path r) k of
        Some v \<Rightarrow> Some v
      | None \<Rightarrow> latest_source (files r) (rev (custom_configs r)) k)
   \<and> named_poses (add_named_pose_config_cb ''aux.yaml'' home_robot) ''home''
       = Some [0, 0, 0, 0, 0, 0]"
  by (simp add: load_config_lookup home_after_aux)

subsection \<open>Named pose store: add and remove\<close>

lemma add_rejects_duplicate:
  "add_pose_name req \<in> dom (named_poses r) \<Longrightarrow> \<not> add_overwrite req \<Longrightarrow>
     add_named_pose_cb req r = (False, r)"
  by (simp add: add_named_pose_cb_def)

lemma add_overwrite_replaces:
  "add_overwrite req \<Longrightarrow>
     fst (add_named_pose_cb req r)
     \<and> named_poses (snd (add_named_pose_cb req r)) = (named_poses r)(add_pose_name req \<mapsto> robot_q r)"
  by (simp add: add_named_pose_cb_def write_config_def Let_def)

lemma remove_absent_rejected:
  "remove_pose_name req \<notin> dom (named_poses r) \<Longrightarrow> remove_overwrite req = Some False \<Longrightarrow>
     remove_named_pose_cb req r = Returned False r"
  by (simp add: remove_named_pose_cb_def)

text \<open>
  C4, where the code departs from it: the store holds only \<open>home\<close> and a remove request names
  \<open>ghost\<close>. With the overwrite flag set the callback reaches
  \<^verbatim>\<open>del self.named_poses[req.pose_name]\<close> and raises \<^verbatim>\<open>KeyError\<close>; with a request
  type that has no such field it raises \<^verbatim>\<open>AttributeError\<close>. Neither returns the
  failure response.
\<close>

theorem remove_absent_name_raises:
  "remove_named_pose_cb \<lparr>remove_pose_name = ''ghost'', remove_overwrite = Some True\<rparr> home_robot
     = Raised (KeyError ''ghost'') home_robot
   \<and> remove_named_pose_cb \<lparr>remove_pose_name = ''ghost'', remove_overwrite = None\<rparr> home_robot
     = Raised (AttributeError ''overwrite'') home_robot"
  by (simp add: remove_named_pose_cb_def home_robot_fields)

text \<open>
  C10: a successful add stores, and writes to the primary file, the joint vector \<open>q\<close>
  the robot has at the call; the request carries no pose. Two successful adds under
  different names with no change of \<open>q\<close> in between store equal vectors.
\<close>

theorem add_stores_live_joints:
  "(add_named_pose_cb req r = (True, r') \<longrightarrow>
      named_poses r' (add_pose_name req) = Some (robot_q r)
      \<and> (\<exists>doc saved. files r' (config_path r') = Some doc \<and> doc ''named_poses'' = Some saved
            \<and> saved (add_pose_name req) = Some (robot_q r))
      \<and> robot_q r' = robot_q r)
   \<and> (add_named_pose_cb req r = (True, r') \<and> add_named_pose_cb req2 r' = (True, r'')
        \<and> add_pose_name req \<noteq> add_pose_name req2 \<longrightarrow>
      named_poses r'' (add_pose_name req) = named_poses r'' (add_pose_name req2)
      \<and> named_poses r'' (add_pose_name req2) = Some (robot_q r))"
  by (auto simp: add_named_pose_cb_def write_config_def Let_def split: if_splits)

lemma add_fresh:
  "add_pose_name req \<notin> dom (named_poses r) \<Longrightarrow>
     fst (add_named_pose_cb req r)
     \<and> named_poses (snd (add_named_pose_cb req r)) = (named_poses r)(add_pose_name req \<mapsto> robot_q r)
     \<and> robot_q (snd (add_named_pose_cb req r)) = robot_q r"
  by (simp add: add_named_pose_cb_def write_config_def Let_def)

lemma first_add_fields:
  "fst first_add"
  "named_poses (snd first_add) =
     [''home'' \<mapsto> [0, 0, 0, 0, 0, 0], ''ready'' \<mapsto> [0, 0, 0, 0, 0, 0]]"
  unfolding first_add_def
  using add_fresh [of "\<lparr>add_pose_name = ''ready'', add_overwrite = False\<rparr>" home_robot]
  by (simp_all add: home_robot_fields)

lemma second_add_succeeds: "fst second_add"
  unfolding second_add_def
  using add_fresh [of "\<lparr>add_pose_name = ''park'', add_overwrite = False\<rparr>" "snd first_add"]
  by (simp add: first_add_fields)

theorem add_stores_live_joints_witness:
  "first_add = (True, snd first_add) \<and> second_add = (True, snd second_add)
   \<and> named_poses (snd second_add) ''ready'' = Some [0, 0, 0, 0, 0, 0]
   \<and> named_poses (snd second_add) ''park'' = Some [0, 0, 0, 0, 0, 0]"
proof -
  let ?a = "\<lparr>add_pose_name = ''ready'', add_overwrite = False\<rparr>"
  let ?b = "\<lparr>add_pose_name = ''park'', add_overwrite = False\<rparr>"
  have a: "first_add = (True, snd first_add)"
    using first_add_fields(1) by (simp add: prod_eq_iff)
  have b: "second_add = (True, snd second_add)"
    using second_add_succeeds by (simp add: prod_eq_iff)
  have a': "add_named_pose_cb ?a home_robot = (True, snd first_add)"
    using a unfolding first_add_def .
  have b': "add_named_pose_cb ?b (snd first_add) = (True, snd second_add)"
    using b unfolding second_add_def .
  have ne: "add_pose_name ?a \<noteq> add_pose_name ?b" by simp
  have "named_poses (snd second_add) (add_pose_name ?a)
          = named_poses (snd second_add) (add_pose_name ?b)
        \<and> named_poses (snd second_add) (add_pose_name ?b) = Some (robot_q home_robot)"
    using add_stores_live_joints [of ?a home_robot "snd first_add" ?b "snd second_add"] a' b' ne
    by blast
  then have "named_poses (snd second_add) ''ready'' = Some [0, 0, 0, 0, 0, 0]
      \<and> named_poses (snd second_add) ''park'' = Some [0, 0, 0, 0, 0, 0]"
    by (simp add: home_robot_fields(2))
  with a b show ?thesis by blast
qed

subsection \<open>Preemption\<close>


subsection \<open>Guards\<close>

text \<open>
  C8: the value of \<open>test_guards\<close> is the bitwise or of the duration constant, present
  exactly when the duration guard is enabled and the elapsed time is greater than the
  threshold, and the effort constant, present exactly when the effort guard is enabled
  and one of the six wrench components exceeds its threshold in absolute value. With the
  constants 1 and 2 each bit of the result can be read off on its own.
\<close>

theorem test_guards_result:
  "test_guards g start_time now r =
     ((if (enabled g AND GUARD_DURATION g) = GUARD_DURATION g \<and> now - start_time > duration g
       then GUARD_DURATION g else 0)
      OR
      (if (enabled g AND GUARD_EFFORT g) = GUARD_EFFORT g
          \<and> (\<bar>force_x (ee_wrench (state r))\<bar> > force_x (effort g)
             \<or> \<bar>force_y (ee_wrench (state r))\<bar> > force_y (effort g)
             \<or> \<bar>force_z (ee_wrench (state r))\<bar> > force_z (effort g)
             \<or> \<bar>torque_x (ee_wrench (state r))\<bar> > torque_x (effort g)
             \<or> \<bar>torque_y (ee_wrench (state r))\<bar> > torque_y (effort g)
             \<or> \<bar>torque_z (ee_wrench (state r))\<bar> > torque_z (effort g))
       then GUARD_EFFORT g else 0))
   \<and> (GUARD_DURATION g = 1 \<and> GUARD_EFFORT g = 2 \<longrightarrow>
        ((test_guards g start_time now r AND 1 = 1) \<longleftrightarrow>
           (enabled g AND 1) = 1 \<and> now - start_time > duration g)
      \<and> ((test_guards g start_time now r AND 2 = 2) \<longleftrightarrow>
           (enabled g AND 2) = 2
           \<and> (\<bar>force_x (ee_wrench (state r))\<bar> > force_x (effort g)
             \<or> \<bar>force_y (ee_wrench (state r))\<bar> > force_y (effort g)
             \<or> \<bar>force_z (ee_wrench (state r))\<bar> > force_z (effort g)
             \<or> \<bar>torque_x (ee_wrench (state r))\<bar> > torque_x (effort g)
             \<or> \<bar>torque_y (ee_wrench (state r))\<bar> > torque_y (effort g)
             \<or> \<bar>torque_z (ee_wrench (state r))\<bar> > torque_z (effort g))))"
  by (simp add: test_guards_def wrench_list_def Let_def)

theorem test_guards_result_witness:
  "GUARD_DURATION both_guards = 1 \<and> GUARD_EFFORT both_guards = 2
   \<and> test_guards both_guards 0 6 home_robot AND 1 = 1
   \<and> test_guards both_guards 0 6 home_robot AND 2 \<noteq> 2
   \<and> test_guards both_guards 0 5 home_robot AND 1 \<noteq> 1"
proof -
  have c: "GUARD_DURATION both_guards = 1 \<and> GUARD_EFFORT both_guards = 2"
    by (simp add: both_guards_def)
  have e: "enabled both_guards = 3" "duration both_guards = 5" "effort both_guards = zero_wrench"
    by (simp_all add: both_guards_def)
  have w: "ee_wrench (state home_robot) = zero_wrench"
    by (simp add: home_robot_fields empty_state_def)
  have z: "force_x zero_wrench = 0" "force_y zero_wrench = 0" "force_z zero_wrench = 0"
    "torque_x zero_wrench = 0" "torque_y zero_wrench = 0" "torque_z zero_wrench = 0"
    by (simp_all add: zero_wrench_def)
  have "test_guards both_guards 0 6 home_robot AND 1 = 1"
    using test_guards_result [of both_guards 0 6 home_robot] c by (simp add: e)
  moreover have "test_guards both_guards 0 6 home_robot AND 2 \<noteq> 2"
    using test_guards_result [of both_guards 0 6 home_robot] c by (simp add: e w z)
  moreover have "test_guards both_guards 0 5 home_robot AND 1 \<noteq> 1"
    using test_guards_result [of both_guards 0 5 home_robot] c by (simp add: e)
  ultimately show ?thesis using c by blast
qed

subsection \<open>The periodic tick: decay of stale targets\<close>

lemma staleness_decay_zero: "staleness_decay stale (replicate k 0) = replicate k 0"
  by (simp add: staleness_decay_def)

lemma staleness_decay_not_any: "\<not> np_any v \<Longrightarrow> staleness_decay stale v = v"
  using not_any_zero [of v] staleness_decay_zero [of stale "length v"] by simp

lemma e_v_cartesian_stage:
  "e_v (cartesian_stage K t dt r) = staleness_decay (t - last_update r > 0.1) (e_v r)"
proof (cases "np_any (e_v r)")
  case True
  then show ?thesis
    by (simp add: cartesian_stage_def Let_def staleness_decay_def vscale_0_replicate
          vscale_nine_tenths)
next
  case False
  then show ?thesis by (simp add: cartesian_stage_def staleness_decay_not_any)
qed

lemma j_v_joint_stage:
  "elems (j_v (joint_stage t r)) = staleness_decay (t - last_update r > 0.1) (elems (j_v r))"
proof (cases "j_v r")
  case (NdArray v)
  show ?thesis
  proof (cases "np_any v")
    case True
    with NdArray show ?thesis
      by (simp add: joint_stage_def staleness_decay_def vscale_0_replicate vscale_nine_tenths)
  next
    case False
    with NdArray show ?thesis by (simp add: joint_stage_def staleness_decay_not_any)
  qed
next
  case (ZeroList k)
  then show ?thesis by (simp add: joint_stage_def staleness_decay_zero)
qed

lemma joint_stage_keeps:
  "e_v (joint_stage t r) = e_v r" "last_update (joint_stage t r) = last_update r"
  by (simp_all add: joint_stage_def split: pyvec.splits)

lemma cartesian_stage_keeps:
  "last_update (cartesian_stage K t dt r) = last_update r"
  "\<not> np_any (e_v r) \<Longrightarrow> cartesian_stage K t dt r = r"
  by (simp_all add: cartesian_stage_def Let_def)

text \<open>
  C7: in a tick of a driver that is not read-only, the cartesian target after the tick
  is the staleness rule applied to the target before it, and the joint target after the
  tick is the same rule applied to the joint target the tick works on: the one stored
  before the tick when no cartesian target is active, and otherwise the one the tick has
  just computed from the cartesian target. The commanded velocity is that joint target.
\<close>

theorem step_applies_staleness_decay:
  "\<not> readonly r \<Longrightarrow>
     e_v (step K t dt r) = staleness_decay (t - last_update r > 0.1) (e_v r)
     \<and> elems (j_v (step K t dt r)) =
         staleness_decay (t - last_update r > 0.1)
           (elems (j_v (cartesian_stage K t dt (r\<lparr>state := get_state K r\<rparr>))))
     \<and> (\<not> np_any (e_v r) \<longrightarrow>
          elems (j_v (step K t dt r)) =
            staleness_decay (t - last_update r > 0.1) (elems (j_v r)))
     \<and> robot_qd (step K t dt r) = elems (j_v (step K t dt r))"
  by (simp add: step_def Let_def joint_stage_keeps e_v_cartesian_stage j_v_joint_stage
        cartesian_stage_keeps)

lemma stale_robot_fields:
  "\<not> readonly stale_robot" "e_v stale_robot = [1, 0, 0, 0, 0, 0]" "last_update stale_robot = 0"
  by (simp_all add: stale_robot_def home_robot_fields)

theorem step_applies_staleness_decay_witness:
  "\<not> readonly stale_robot
   \<and> e_v (step test_provider 1 (1 / 100) stale_robot) = [9 / 10, 0, 0, 0, 0, 0]
   \<and> e_v (step test_provider (1 / 20) (1 / 100) stale_robot) = [1, 0, 0, 0, 0, 0]"
  using step_applies_staleness_decay [of stale_robot test_provider 1 "1 / 100"]
    step_applies_staleness_decay [of stale_robot test_provider "1 / 20" "1 / 100"]
  by (simp add: stale_robot_fields staleness_decay_def sum_abs_def)

subsection \<open>Trajectory execution: the speed cap\<close>

lemma sqrt_9: "sqrt 9 = 3"
  by (rule real_sqrt_unique) simp_all

lemma sqrt_25_9: "sqrt (25 / 9) = 5 / 3"
  by (rule real_sqrt_unique) (simp_all add: power2_eq_square)

lemma sum_squares_vscale:
  "sum_list (map (\<lambda>x. x * x) (vscale c v)) = c * c * sum_list (map (\<lambda>x. x * x) v)"
  by (induction v) (simp_all add: vscale_def algebra_simps)

lemma linalg_norm_vscale: "linalg_norm (vscale c v) = \<bar>c\<bar> * linalg_norm v"
  by (simp add: linalg_norm_def sum_squares_vscale real_sqrt_mult)

lemma sum_squares_nonneg: "0 \<le> sum_list (map (\<lambda>x. x * x) (v::real list))"
  by (induction v) simp_all

lemma linalg_norm_nonneg: "0 \<le> linalg_norm v"
  by (simp add: linalg_norm_def sum_squares_nonneg)

lemma time_scaling_of_capped:
  "linalg_norm (take 3 twist) > max_speed \<Longrightarrow>
     time_scaling_of twist max_speed =
       \<bar>max_speed\<bar> * linalg_norm twist / (linalg_norm (take 3 twist) * linalg_norm (take 3 twist))"
  using linalg_norm_nonneg [of "take 3 twist"]
  by (simp add: time_scaling_of_def Let_def linalg_norm_vscale abs_mult)

lemma time_scaling_of_linear_twist:
  "0 \<le> max_speed \<Longrightarrow> linalg_norm [x, y, z] > max_speed \<Longrightarrow>
     time_scaling_of [x, y, z, 0, 0, 0] max_speed = max_speed / linalg_norm [x, y, z]"
proof -
  assume m: "0 \<le> max_speed" and c: "linalg_norm [x, y, z] > max_speed"
  have e: "linalg_norm [x, y, z, 0, 0, 0] = linalg_norm [x, y, z]"
    by (simp add: linalg_norm_def)
  have "linalg_norm (take 3 [x, y, z, 0, 0, 0]) = linalg_norm [x, y, z]" by simp
  then show ?thesis
    using time_scaling_of_capped [of max_speed "[x, y, z, 0, 0, 0]"] c m e by simp
qed

text \<open>
  C6, where the code departs from it: the twist \<open>(3, 0, 0, 4, 0, 0)\<close> has linear
  speed 3, above the cap \<open>max_speed = 1\<close>, so the factor should be \<open>1 / 3\<close>. The source
  takes the norm of all six components of the rescaled twist and computes \<open>5 / 9\<close>; the
  joint velocity and the time increment are both multiplied by that number.
\<close>

theorem time_scaling_counts_angular_part:
  "linalg_norm (take 3 [3, 0, 0, 4, 0, 0]) = 3
   \<and> time_scaling_of [3, 0, 0, 4, 0, 0] 1 = 5 / 9"
  by (simp add: time_scaling_of_def linalg_norm_def vscale_def sqrt_9 Let_def sqrt_25_9)

subsection \<open>Action callbacks\<close>

text \<open>
  C3, where the code departs from it: an idle robot whose store holds only \<open>home\<close> is asked to move
  to \<open>nowhere\<close>. The callback reports the abort and then raises \<^verbatim>\<open>KeyError\<close>.
\<close>

theorem named_pose_cb_unknown_name_raises:
  "named_pose_cb test_provider \<lparr>pose_name = ''nowhere'', speed = 0\<rparr> [] home_robot =
     Some (Raised (KeyError ''nowhere'')
       (home_robot\<lparr>reports := [SetAborted NamedPoseServer False ''Unknown named pose'']\<rparr>))"
  by (simp add: named_pose_cb_def home_robot_fields)

lemma named_pose_cb_unknown:
  "pose_name goal \<notin> dom (named_poses r) \<Longrightarrow>
     \<exists>r'. named_pose_cb K goal tr r = Some (Raised (KeyError (pose_name goal)) r')"
  by (auto simp: named_pose_cb_def Let_def preempt_def dom_def)

text \<open>
  C2, where the code departs from it: no guard is enabled and the second iteration finds the
  preemption flag set. The loop leaves with \<open>triggered = 0\<close>, and the callback reports
  success with \<^verbatim>\<open>triggered=True\<close>.
\<close>

theorem guarded_velocity_cb_reports_triggered_on_preempt:
  "guarded_loop test_provider \<lparr>goal_twist_stamped = forward_twist, goal_guards = no_guards\<rparr> 0
      [(0, []), (1 / 100, [Preempt])] 0 home_robot
     = Some (0, preempt (vel_move test_provider forward_twist 0 home_robot))
   \<and> map_option reports
       (guarded_velocity_cb test_provider
          \<lparr>goal_twist_stamped = forward_twist, goal_guards = no_guards\<rparr> 0
          [(0, []), (1 / 100, [Preempt])] home_robot)
     = Some [SetSucceededTriggered VelocityServer True]"
  by (simp add: guarded_velocity_cb_def environment_def test_guards_def no_guards_def
        home_robot_fields preempt_def)
    (simp add: vel_move_def home_robot_fields Let_def)

lemma guarded_velocity_cb_always_triggered:
  "guarded_velocity_cb K msg start_time tr r = Some r' \<Longrightarrow>
     reports r' \<noteq> [] \<and> last (reports r') = SetSucceededTriggered VelocityServer True"
  by (auto simp: guarded_velocity_cb_def Let_def split: option.splits)

subsection \<open>Trajectory execution: leaving the loop\<close>




















subsection \<open>Trajectory execution: three runs\<close>













end
